theory Spec2Isabelle
  imports Complex_Main
begin

section \<open>Data model of \<open>pylivetrader/algorithm.py\<close>\<close>

text \<open>
  The embedding follows the class \<open>Algorithm\<close> of \<open>src/pylivetrader/algorithm.py\<close>.
  Every method takes the algorithm instance as an explicit state and returns the outcome
  (an exception as \<open>Inl\<close>, a returned value as \<open>Inr\<close>) together with the instance as the
  call leaves it, so that what a call did before it raised stays visible.
  Share counts, prices and notional values are Python numbers and are modelled as reals;
  instants are seconds since the epoch.
\<close>

subsection \<open>Values\<close>

text \<open>
  Modelled from the spec: the classes \<open>Asset\<close>, \<open>Order\<close>, the execution styles, the
  portfolio with its positions and the account are imported and not part of this module.
  Their fields are the ones the spec's data model lists and the module reads.
\<close>

record asset =
  sid :: int
  symbol :: string
  end_date :: int
  auto_close_date :: "int option"

text \<open>The first argument of the \<open>order\<close> family: an \<open>Asset\<close> instance or anything else.\<close>

datatype order_arg = IsAsset asset | NotAsset string

datatype style =
    MarketOrder
  | LimitOrder real
  | StopOrder real
  | StopLimitOrder real real

record order_rec =
  order_id :: string
  order_asset :: asset
  order_amount :: int
  is_open :: bool
  order_style :: style

record position =
  pos_amount :: real

text \<open>Positions are keyed by asset; assets hash and compare by \<open>sid\<close>.\<close>

record portfolio_rec =
  positions :: "int \<rightharpoonup> position"
  portfolio_value :: real

datatype account_rec = Account (buying_power: real)

datatype tz = UTC | OtherTz string

record pydatetime =
  instant :: int
  tzinfo :: tz

datatype calendar_sentinel = US_EQUITIES | US_FUTURES | OtherSentinel string

datatype error =
    NameError string
  | AttributeError string
  | KeyError string
  | AssertionError
  | RuntimeError string
  | UnsupportedOrderParameters string
  | CannotOrderDelistedAsset string
  | ScheduleFunctionInvalidCalendar calendar_sentinel string

datatype log_record =
    Warn string
  | Debug string

subsection \<open>The backend, the bar data and the module's free names\<close>

text \<open>
  The backend is the external boundary. Its answers are parameters: \<open>order_reply\<close> is what
  the brokerage answers to the n-th placement, \<open>portfolio_feed\<close> and \<open>account_feed\<close> are
  the snapshots the n-th fetch returns. What the algorithm did to it is recorded:
  \<open>submitted\<close> lists the placements in call order, the two counters count the fetches.
\<close>

record backend =
  order_reply :: "nat \<Rightarrow> asset \<Rightarrow> int \<Rightarrow> style \<Rightarrow> order_rec option"
  submitted :: "(asset \<times> int \<times> style) list"
  portfolio_feed :: "nat \<Rightarrow> portfolio_rec"
  portfolio_fetches :: nat
  account_feed :: "nat \<Rightarrow> account_rec"
  account_fetches :: nat

definition backend_order :: "backend \<Rightarrow> asset \<Rightarrow> int \<Rightarrow> style \<Rightarrow> order_rec option \<times> backend" where
  "backend_order b a n st =
     (order_reply b (length (submitted b)) a n st,
      b\<lparr>submitted := submitted b @ [(a, n, st)]\<rparr>)"

definition backend_portfolio :: "backend \<Rightarrow> portfolio_rec \<times> backend" where
  "backend_portfolio b =
     (portfolio_feed b (portfolio_fetches b), b\<lparr>portfolio_fetches := Suc (portfolio_fetches b)\<rparr>)"

definition backend_account :: "backend \<Rightarrow> account_rec \<times> backend" where
  "backend_account b =
     (account_feed b (account_fetches b), b\<lparr>account_fetches := Suc (account_fetches b)\<rparr>)"

text \<open>\<open>self.executor.current_data\<close>: the bar-data view; only \<open>can_trade\<close> is used here.\<close>

record bardata =
  can_trade :: "asset \<Rightarrow> bool"

record executor_rec =
  current_data :: bardata

text \<open>
  Modelled from the spec: the trading-calendar service is not part of this module. A
  calendar gives, for each session, its length in minutes and whether it is a half day.
\<close>

record calendar =
  cal_name :: string
  session_minutes :: "nat \<Rightarrow> nat"
  half_day :: "nat \<Rightarrow> bool"

text \<open>
  Event rules. \<open>Always\<close> is what \<open>date_rules.every_day()\<close>, \<open>time_rules.every_minute()\<close>
  and \<open>events.Always()\<close> build; \<open>EventRule\<close> is what \<open>make_eventrule\<close> returns.
\<close>

datatype rule =
    Always
  | AfterOpen nat
  | BeforeClose nat
  | OnSessions "nat \<Rightarrow> bool"
  | EventRule rule rule calendar bool

record event =
  event_rule :: rule
  event_callback :: string

type_synonym backend_options = "(string \<times> string) list"

datatype pymodule = Module (Backend: "(backend_options \<Rightarrow> backend) option")

text \<open>
  The names the method bodies read from the module's namespace. \<open>import_module\<close> and
  \<open>get_calendar\<close> are imported at the top of the file; \<open>log\<close>, \<open>last_price\<close>, \<open>options\<close> and
  \<open>ScheduleFunctionInvalidCalendar\<close> are read by method bodies, and a read of a name
  that the namespace does not bind raises \<open>NameError\<close>.
\<close>

record module_env =
  import_module :: "string \<rightharpoonup> pymodule"
  get_calendar :: "string \<Rightarrow> calendar"
  name_log :: bool
  name_last_price :: "real option"
  name_options :: "backend_options option"
  name_ScheduleFunctionInvalidCalendar :: bool

text \<open>
  The namespace of the file as it is written: none of \<open>log\<close>, \<open>last_price\<close>, \<open>options\<close> and
  \<open>ScheduleFunctionInvalidCalendar\<close> is imported or assigned anywhere in it.
\<close>

definition algorithm_py :: "(string \<rightharpoonup> pymodule) \<Rightarrow> (string \<Rightarrow> calendar) \<Rightarrow> module_env" where
  "algorithm_py importer cals =
     \<lparr>import_module = importer, get_calendar = cals, name_log = False,
      name_last_price = None, name_options = None,
      name_ScheduleFunctionInvalidCalendar = False\<rparr>"

subsection \<open>The algorithm instance\<close>

text \<open>
  An attribute that \<open>__init__\<close> does not assign (\<open>_portfolio\<close>, \<open>_account\<close>, \<open>datetime\<close>,
  \<open>executor\<close>, \<open>logger\<close>) is \<open>None\<close> until a method assigns it, and reading it then raises
  \<open>AttributeError\<close>. \<open>log_output\<close> and \<open>warnings_emitted\<close> record what was logged and
  warned.
\<close>

record algorithm =
  recorded_vars :: "(string \<times> real) list"
  data_frequency :: string
  backend :: backend
  trading_calendar :: calendar
  event_manager :: "event list"
  initialize_fn :: string
  handle_data_fn :: string
  before_trading_start_fn :: string
  account_needs_update :: bool
  portfolio_needs_update :: bool
  assets_from_source :: "asset list"
  initialized :: bool
  cached_portfolio :: "portfolio_rec option"
  cached_account :: "account_rec option"
  datetime :: "pydatetime option"
  executor :: "executor_rec option"
  logger :: "string option option"
  log_output :: "log_record list"
  warnings_emitted :: "string list"

type_synonym 'a result = "(error + 'a) \<times> algorithm"

section \<open>Numeric helpers\<close>

text \<open>Python's built-in \<open>round\<close> (ties to even) and \<open>int\<close> (truncation toward zero).\<close>

definition py_round :: "real \<Rightarrow> int" where
  "py_round x =
     (let f = \<lfloor>x\<rfloor>; d = x - of_int f
      in if d < 1 / 2 then f else if 1 / 2 < d then f + 1 else if even f then f else f + 1)"

definition py_int :: "real \<Rightarrow> int" where
  "py_int x = (if 0 \<le> x then \<lfloor>x\<rfloor> else \<lceil>x\<rceil>)"

text \<open>
  Modelled from the spec: \<open>pylivetrader.misc.math_utils\<close> is imported and not part of this
  module. \<open>round_if_near_integer(value, epsilon)\<close> returns the value rounded to the nearest
  whole number if it lies within epsilon of it, else the value unchanged.
\<close>

definition round_if_near_integer :: "real \<Rightarrow> real \<Rightarrow> real" where
  "round_if_near_integer a epsilon =
     (if \<bar>a - of_int (py_round a)\<bar> \<le> epsilon then of_int (py_round a) else a)"

text \<open>
  Modelled from the spec: \<open>tolerant_equals(a, b, atol, rtol)\<close> of the same module is
  \<open>|a - b| <= atol + rtol * |b|\<close>.
\<close>

definition tolerant_equals :: "real \<Rightarrow> real \<Rightarrow> real \<Rightarrow> real \<Rightarrow> bool" where
  "tolerant_equals a b atol rtol = (\<bar>a - b\<bar> \<le> atol + rtol * \<bar>b\<bar>)"

text \<open>
  Modelled from the spec: the defaults of the two helpers, epsilon = 0.0001,
  atol = 0.0001 and rtol = 0.
\<close>

definition default_epsilon :: real where
  "default_epsilon = 1 / 10000"

definition default_atol :: real where
  "default_atol = 1 / 10000"

definition default_rtol :: real where
  "default_rtol = 0"

definition round_order :: "real \<Rightarrow> int" where
  "round_order amount = py_int (round_if_near_integer amount default_epsilon)"

section \<open>Order placement\<close>

text \<open>Truth value of an optional price: \<open>None\<close> and zero are false.\<close>

definition truthy :: "real option \<Rightarrow> bool" where
  "truthy p = (case p of None \<Rightarrow> False | Some v \<Rightarrow> v \<noteq> 0)"

text \<open>
  \<open>__convert_order_params_for_blotter\<close>. A style object is always true, so \<open>if style\<close>
  tests for a given style. The four constructors of \<open>pylivetrader.finance.execution\<close>
  are taken as plain constructors. A true price is never \<open>None\<close>, so \<open>the\<close> is only
  applied to a price that is there.
\<close>

definition convert_order_params_for_blotter ::
    "real option \<Rightarrow> real option \<Rightarrow> style option \<Rightarrow> error + style" where
  "convert_order_params_for_blotter limit_price stop_price style_arg =
     (case style_arg of
        Some st \<Rightarrow>
          if (limit_price, stop_price) = (None, None) then Inr st else Inl AssertionError
      | None \<Rightarrow>
          if truthy limit_price \<and> truthy stop_price
          then Inr (StopLimitOrder (the limit_price) (the stop_price))
          else if truthy limit_price then Inr (LimitOrder (the limit_price))
          else if truthy stop_price then Inr (StopOrder (the stop_price))
          else Inr MarketOrder)"

definition calculate_order ::
    "real \<Rightarrow> real option \<Rightarrow> real option \<Rightarrow> style option \<Rightarrow> error + (int \<times> style)" where
  "calculate_order amount limit_price stop_price style_arg =
     (let amount' = round_order amount
      in case convert_order_params_for_blotter limit_price stop_price style_arg of
           Inl e \<Rightarrow> Inl e
         | Inr st \<Rightarrow> Inr (amount', st))"

definition get_datetime :: "algorithm \<Rightarrow> tz option \<Rightarrow> pydatetime result" where
  "get_datetime s tz_arg =
     (case datetime s of
        None \<Rightarrow> (Inl (AttributeError ''datetime''), s)
      | Some dt \<Rightarrow>
          if tzinfo dt \<noteq> UTC then (Inl AssertionError, s)
          else (case tz_arg of
                  None \<Rightarrow> (Inr dt, s)
                | Some z \<Rightarrow> (Inr (dt\<lparr>tzinfo := z\<rparr>), s)))"

text \<open>\<open>normalize_date\<close>: the same day at midnight.\<close>

definition normalize_date :: "pydatetime \<Rightarrow> pydatetime" where
  "normalize_date dt = dt\<lparr>instant := instant dt - instant dt mod 86400\<rparr>"

definition not_tradable_msg :: "asset \<Rightarrow> string" where
  "not_tradable_msg a = ''Cannot place order for '' @ symbol a @ '', as it is not tradable.''"

definition non_asset_msg :: string where
  "non_asset_msg =
     ''Passing non-Asset argument to 'order()' is not supported. Use 'sid()' or 'symbol()' methods to look up an Asset.''"

text \<open>\<open>_can_order_asset\<close>.\<close>

definition can_order_asset :: "module_env \<Rightarrow> algorithm \<Rightarrow> order_arg \<Rightarrow> bool result" where
  "can_order_asset g s x =
     (case x of
        NotAsset _ \<Rightarrow> (Inl (UnsupportedOrderParameters non_asset_msg), s)
      | IsAsset a \<Rightarrow>
          (case auto_close_date a of
             None \<Rightarrow> (Inr True, s)
           | Some acd \<Rightarrow>
               (case get_datetime s None of
                  (Inl e, s1) \<Rightarrow> (Inl e, s1)
                | (Inr dt, s1) \<Rightarrow>
                    if min (end_date a) acd < instant (normalize_date dt)
                    then (if name_log g
                          then (Inr False,
                                s1\<lparr>log_output := log_output s1 @ [Warn (not_tradable_msg a)]\<rparr>)
                          else (Inl (NameError ''log''), s1))
                    else (Inr True, s1))))"

text \<open>\<open>order\<close>: the gate, the rounding and the style, then the placement.\<close>

definition order ::
    "module_env \<Rightarrow> algorithm \<Rightarrow> order_arg \<Rightarrow> real \<Rightarrow> real option \<Rightarrow> real option \<Rightarrow> style option
      \<Rightarrow> string option result" where
  "order g s x amount limit_price stop_price style_arg =
     (case can_order_asset g s x of
        (Inl e, s1) \<Rightarrow> (Inl e, s1)
      | (Inr False, s1) \<Rightarrow> (Inr None, s1)
      | (Inr True, s1) \<Rightarrow>
          (case calculate_order amount limit_price stop_price style_arg of
             Inl e \<Rightarrow> (Inl e, s1)
           | Inr (amount', st) \<Rightarrow>
               (case x of
                  NotAsset _ \<Rightarrow> (Inl (UnsupportedOrderParameters non_asset_msg), s1)
                | IsAsset a \<Rightarrow>
                    (case backend_order (backend s1) a amount' st of
                       (reply, b') \<Rightarrow> (Inr (map_option order_id reply), s1\<lparr>backend := b'\<rparr>)))))"

section \<open>Portfolio and account caches, the clock\<close>

text \<open>The \<open>portfolio\<close> and \<open>account\<close> properties and \<open>on_dt_changed\<close>.\<close>

definition portfolio :: "algorithm \<Rightarrow> portfolio_rec result" where
  "portfolio s =
     (let s1 = (if portfolio_needs_update s
                then (case backend_portfolio (backend s) of
                        (p, b') \<Rightarrow> s\<lparr>backend := b', cached_portfolio := Some p,
                                     portfolio_needs_update := False\<rparr>)
                else s)
      in case cached_portfolio s1 of
           None \<Rightarrow> (Inl (AttributeError ''_portfolio''), s1)
         | Some p \<Rightarrow> (Inr p, s1))"

definition account :: "algorithm \<Rightarrow> account_rec result" where
  "account s =
     (let s1 = (if account_needs_update s
                then (case backend_account (backend s) of
                        (a, b') \<Rightarrow> s\<lparr>backend := b', cached_account := Some a,
                                     account_needs_update := False\<rparr>)
                else s)
      in case cached_account s1 of
           None \<Rightarrow> (Inl (AttributeError ''_account''), s1)
         | Some a \<Rightarrow> (Inr a, s1))"

definition on_dt_changed :: "algorithm \<Rightarrow> pydatetime \<Rightarrow> algorithm" where
  "on_dt_changed s dt =
     s\<lparr>portfolio_needs_update := True, account_needs_update := True, datetime := Some dt\<rparr>"

section \<open>Order sizing\<close>

definition delisted_msg :: "asset \<Rightarrow> string" where
  "delisted_msg a = ''Cannot order '' @ symbol a @ '', as it not tradable''"

definition zero_message :: "asset \<Rightarrow> string" where
  "zero_message a = ''Price of 0 for '' @ symbol a @ ''; can't infer value''"

text \<open>
  \<open>_calculate_order_value_amount\<close>. The body reads the name \<open>last_price\<close>, which it never
  assigns, so the read goes to the module's namespace. The debug message prints the
  asset; its symbol stands for the printed form here.
\<close>

definition calculate_order_value_amount ::
    "module_env \<Rightarrow> algorithm \<Rightarrow> asset \<Rightarrow> real \<Rightarrow> real result" where
  "calculate_order_value_amount g s a v =
     (case executor s of
        None \<Rightarrow> (Inl (AttributeError ''executor''), s)
      | Some ex \<Rightarrow>
          if \<not> can_trade (current_data ex) a
          then (Inl (CannotOrderDelistedAsset (delisted_msg a)), s)
          else (case name_last_price g of
                  None \<Rightarrow> (Inl (NameError ''last_price''), s)
                | Some last_price \<Rightarrow>
                    if tolerant_equals last_price 0 default_atol default_rtol
                    then (case logger s of
                            None \<Rightarrow> (Inl (AttributeError ''logger''), s)
                          | Some None \<Rightarrow> (Inr 0, s)
                          | Some (Some _) \<Rightarrow>
                              (Inr 0, s\<lparr>log_output := log_output s @ [Debug (zero_message a)]\<rparr>))
                    else (Inr (v / last_price), s)))"

text \<open>
  \<open>_calculate_order_target_amount\<close>: two reads of the \<open>portfolio\<close> property, the
  membership test and the subscript.
\<close>

definition calculate_order_target_amount :: "algorithm \<Rightarrow> asset \<Rightarrow> real \<Rightarrow> real result" where
  "calculate_order_target_amount s a target =
     (case portfolio s of
        (Inl e, s1) \<Rightarrow> (Inl e, s1)
      | (Inr p, s1) \<Rightarrow>
          (case positions p (sid a) of
             None \<Rightarrow> (Inr target, s1)
           | Some _ \<Rightarrow>
               (case portfolio s1 of
                  (Inl e, s2) \<Rightarrow> (Inl e, s2)
                | (Inr p2, s2) \<Rightarrow>
                    (case positions p2 (sid a) of
                       None \<Rightarrow> (Inl (KeyError (symbol a)), s2)
                     | Some current_position \<Rightarrow>
                         (Inr (target - pos_amount current_position), s2)))))"

definition order_value ::
    "module_env \<Rightarrow> algorithm \<Rightarrow> order_arg \<Rightarrow> real \<Rightarrow> real option \<Rightarrow> real option \<Rightarrow> style option
      \<Rightarrow> string option result" where
  "order_value g s x v limit_price stop_price style_arg =
     (case can_order_asset g s x of
        (Inl e, s1) \<Rightarrow> (Inl e, s1)
      | (Inr False, s1) \<Rightarrow> (Inr None, s1)
      | (Inr True, s1) \<Rightarrow>
          (case x of
             NotAsset _ \<Rightarrow> (Inl (UnsupportedOrderParameters non_asset_msg), s1)
           | IsAsset a \<Rightarrow>
               (case calculate_order_value_amount g s1 a v of
                  (Inl e, s2) \<Rightarrow> (Inl e, s2)
                | (Inr amount, s2) \<Rightarrow> order g s2 x amount limit_price stop_price style_arg)))"

definition order_target ::
    "module_env \<Rightarrow> algorithm \<Rightarrow> order_arg \<Rightarrow> real \<Rightarrow> real option \<Rightarrow> real option \<Rightarrow> style option
      \<Rightarrow> string option result" where
  "order_target g s x target limit_price stop_price style_arg =
     (case can_order_asset g s x of
        (Inl e, s1) \<Rightarrow> (Inl e, s1)
      | (Inr False, s1) \<Rightarrow> (Inr None, s1)
      | (Inr True, s1) \<Rightarrow>
          (case x of
             NotAsset _ \<Rightarrow> (Inl (UnsupportedOrderParameters non_asset_msg), s1)
           | IsAsset a \<Rightarrow>
               (case calculate_order_target_amount s1 a target of
                  (Inl e, s2) \<Rightarrow> (Inl e, s2)
                | (Inr amount, s2) \<Rightarrow> order g s2 x amount limit_price stop_price style_arg)))"

section \<open>Scheduling\<close>

text \<open>
  Modelled from the spec: \<open>pylivetrader.misc.events\<close> is imported and not part of this
  module. \<open>make_eventrule\<close> yields one composite rule that fires only on instants that
  satisfy both the date rule and the time rule according to the given calendar, and
  that excludes half-day sessions when \<open>half_days\<close> is false (see \<open>should_trigger\<close>).
\<close>

definition make_eventrule :: "rule \<Rightarrow> rule \<Rightarrow> calendar \<Rightarrow> bool \<Rightarrow> rule" where
  "make_eventrule date_rule time_rule cal half_days = EventRule date_rule time_rule cal half_days"

text \<open>
  Modelled from the spec: \<open>EventManager.add_event(event, prepend)\<close> of the same module
  appends the event, or inserts it at the front when \<open>prepend\<close> is true.
\<close>

definition manager_add_event :: "event list \<Rightarrow> event \<Rightarrow> bool \<Rightarrow> event list" where
  "manager_add_event evs e prepend = (if prepend then e # evs else evs @ [e])"

definition add_event :: "algorithm \<Rightarrow> rule \<Rightarrow> string \<Rightarrow> algorithm" where
  "add_event s r cb =
     s\<lparr>event_manager :=
         manager_add_event (event_manager s) \<lparr>event_rule = r, event_callback = cb\<rparr> False\<rparr>"

definition second_positional_warning :: string where
  "second_positional_warning =
     ''Got a time rule for the second positional argument date_rule. You should use keyword argument time_rule= when calling schedule_function without specifying a date_rule''"

definition allowed_calendars :: string where
  "allowed_calendars = ''[calendars.US_EQUITIES, calendars.US_FUTURES]''"

definition is_AfterOpen_or_BeforeClose :: "rule option \<Rightarrow> bool" where
  "is_AfterOpen_or_BeforeClose r =
     (case r of Some (AfterOpen _) \<Rightarrow> True | Some (BeforeClose _) \<Rightarrow> True | _ \<Rightarrow> False)"

text \<open>\<open>schedule_function\<close>. A rule object is always true, so \<open>x or default\<close> tests for \<open>None\<close>.\<close>

definition schedule_function ::
    "module_env \<Rightarrow> algorithm \<Rightarrow> string \<Rightarrow> rule option \<Rightarrow> rule option \<Rightarrow> bool
      \<Rightarrow> calendar_sentinel option \<Rightarrow> unit result" where
  "schedule_function g s func date_rule time_rule half_days calendar_arg =
     (let s1 = (if is_AfterOpen_or_BeforeClose date_rule \<and> time_rule = None
                then s\<lparr>warnings_emitted := warnings_emitted s @ [second_positional_warning]\<rparr>
                else s);
          date_rule' = (case date_rule of None \<Rightarrow> Always | Some r \<Rightarrow> r);
          time_rule' = (if data_frequency s1 = ''minute''
                        then (case time_rule of None \<Rightarrow> Always | Some r \<Rightarrow> r)
                        else Always)
      in case calendar_arg of
           None \<Rightarrow>
             (Inr (), add_event s1
                (make_eventrule date_rule' time_rule' (trading_calendar s1) half_days) func)
         | Some US_EQUITIES \<Rightarrow>
             (Inr (), add_event s1
                (make_eventrule date_rule' time_rule' (get_calendar g ''NYSE'') half_days) func)
         | Some US_FUTURES \<Rightarrow>
             (Inr (), add_event s1
                (make_eventrule date_rule' time_rule' (get_calendar g ''us_futures'') half_days) func)
         | Some (OtherSentinel n) \<Rightarrow>
             (if name_ScheduleFunctionInvalidCalendar g
              then (Inl (ScheduleFunctionInvalidCalendar (OtherSentinel n) allowed_calendars), s1)
              else (Inl (NameError ''ScheduleFunctionInvalidCalendar''), s1)))"

text \<open>
  Modelled from the spec: when a rule of \<open>pylivetrader.misc.events\<close> fires. An instant is
  a session and a minute of it, counted from the open. \<open>Always\<close> holds on every instant,
  \<open>AfterOpen n\<close> n minutes after the open and \<open>BeforeClose n\<close> n minutes before the close;
  \<open>OnSessions\<close> is a date rule that selects sessions; a composite rule holds where its
  date rule and its time rule hold by its own calendar, half days excluded when
  \<open>half_days\<close> is false.
\<close>

primrec should_trigger :: "rule \<Rightarrow> calendar \<Rightarrow> nat \<Rightarrow> nat \<Rightarrow> bool" where
  "should_trigger Always cal session minute = True"
| "should_trigger (AfterOpen n) cal session minute = (minute = n)"
| "should_trigger (BeforeClose n) cal session minute = (minute + n = session_minutes cal session)"
| "should_trigger (OnSessions sel) cal session minute = sel session"
| "should_trigger (EventRule d t c half_days) cal session minute =
     (should_trigger d c session minute \<and> should_trigger t c session minute
      \<and> (if half_days then True else \<not> half_day c session))"

text \<open>
  Modelled from the spec: the execution loop driver is not part of this module. It
  advances the clock bar by bar at the configured data frequency: a session has one bar
  per minute in minute mode and a single bar, at the close, in daily mode.
\<close>

definition session_bars :: "string \<Rightarrow> calendar \<Rightarrow> nat \<Rightarrow> nat list" where
  "session_bars frequency cal session =
     (if frequency = ''minute'' then [0..<session_minutes cal session]
      else [session_minutes cal session])"

text \<open>
  Modelled from the spec: on every bar the event manager fires the events whose rule
  matches the instant; \<open>times_fired\<close> counts the bars of a session on which an event
  fires.
\<close>

definition times_fired :: "algorithm \<Rightarrow> event \<Rightarrow> nat \<Rightarrow> nat" where
  "times_fired s e session =
     length (filter (should_trigger (event_rule e) (trading_calendar s) session)
               (session_bars (data_frequency s) (trading_calendar s) session))"

section \<open>Construction\<close>

record init_kwargs =
  kw_data_frequency :: "string option"
  kw_backend :: "string option"
  kw_backend_options :: "backend_options option"
  kw_trading_calendar :: "calendar option"
  kw_initialize :: "string option"
  kw_handle_data :: "string option"
  kw_before_trading_start :: "string option"

text \<open>What \<open>backendmod\<close> is bound to: an imported module, or an object a call returned.\<close>

datatype pyobject = ModuleObject pymodule | BackendInstance backend

definition not_found_msg :: "string \<Rightarrow> string" where
  "not_found_msg name = ''Could not find backend package `'' @ name @ ''`.''"

text \<open>
  The nested \<open>try\<close> of \<open>__init__\<close>. Only \<open>ImportError\<close> is caught; in the fallback the
  attribute \<open>Backend\<close> is read first, then the name \<open>options\<close>, then the call is made.
\<close>

definition resolve_backendmod :: "module_env \<Rightarrow> string \<Rightarrow> error + pyobject" where
  "resolve_backendmod g name =
     (case import_module g (''pylivetrader.backend.'' @ name) of
        Some m \<Rightarrow> Inr (ModuleObject m)
      | None \<Rightarrow>
          (case import_module g name of
             None \<Rightarrow> Inl (RuntimeError (not_found_msg name))
           | Some m \<Rightarrow>
               (case Backend m of
                  None \<Rightarrow> Inl (AttributeError ''Backend'')
                | Some ctor \<Rightarrow>
                    (case name_options g of
                       None \<Rightarrow> Inl (NameError ''options'')
                     | Some opts \<Rightarrow> Inr (BackendInstance (ctor opts))))))"

text \<open>\<open>backendmod.Backend(**backend_options)\<close>: a backend instance has no such attribute.\<close>

definition call_Backend :: "pyobject \<Rightarrow> backend_options \<Rightarrow> error + backend" where
  "call_Backend obj opts =
     (case obj of
        BackendInstance _ \<Rightarrow> Inl (AttributeError ''Backend'')
      | ModuleObject m \<Rightarrow>
          (case Backend m of
             None \<Rightarrow> Inl (AttributeError ''Backend'')
           | Some ctor \<Rightarrow> Inr (ctor opts)))"

definition init :: "module_env \<Rightarrow> init_kwargs \<Rightarrow> error + algorithm" where
  "init g kw =
     (let frequency = (case kw_data_frequency kw of None \<Rightarrow> ''minute'' | Some f \<Rightarrow> f)
      in if frequency \<noteq> ''minute'' \<and> frequency \<noteq> ''daily'' then Inl AssertionError
         else
           (let name = (case kw_backend kw of None \<Rightarrow> ''alpaca'' | Some n \<Rightarrow> n)
            in case resolve_backendmod g name of
                 Inl e \<Rightarrow> Inl e
               | Inr backendmod \<Rightarrow>
                   (case call_Backend backendmod
                           (case kw_backend_options kw of None \<Rightarrow> [] | Some opts \<Rightarrow> opts) of
                      Inl e \<Rightarrow> Inl e
                    | Inr b \<Rightarrow>
                        Inr \<lparr>recorded_vars = [],
                             data_frequency = frequency,
                             backend = b,
                             trading_calendar =
                               (case kw_trading_calendar kw of
                                  None \<Rightarrow> get_calendar g ''NYSE'' | Some c \<Rightarrow> c),
                             event_manager =
                               manager_add_event []
                                 \<lparr>event_rule = Always, event_callback = ''handle_data''\<rparr> True,
                             initialize_fn =
                               (case kw_initialize kw of None \<Rightarrow> ''noop'' | Some f \<Rightarrow> f),
                             handle_data_fn =
                               (case kw_handle_data kw of None \<Rightarrow> ''noop'' | Some f \<Rightarrow> f),
                             before_trading_start_fn =
                               (case kw_before_trading_start kw of None \<Rightarrow> ''noop'' | Some f \<Rightarrow> f),
                             account_needs_update = True,
                             portfolio_needs_update = True,
                             assets_from_source = [],
                             initialized = False,
                             cached_portfolio = None,
                             cached_account = None,
                             datetime = None,
                             executor = None,
                             logger = None,
                             log_output = [],
                             warnings_emitted = []\<rparr>)))"

definition set_logger :: "algorithm \<Rightarrow> string option \<Rightarrow> algorithm" where
  "set_logger s l = s\<lparr>logger := Some l\<rparr>"

section \<open>The cache invariant\<close>

text \<open>A cleared dirty flag comes with a stored snapshot.\<close>

definition caches_ready :: "algorithm \<Rightarrow> bool" where
  "caches_ready s =
     ((if portfolio_needs_update s then True else cached_portfolio s \<noteq> None)
      \<and> (if account_needs_update s then True else cached_account s \<noteq> None))"

section \<open>A concrete installation\<close>

text \<open>
  The values below are the inputs at which the theorems are run: two calendars, a
  backend that accepts every order and holds 100 shares of the asset with sid 1, the
  modules an installation can import, an algorithm built with the default arguments
  and the same algorithm in the middle of a run.
\<close>

definition nyse :: calendar where
  "nyse = \<lparr>cal_name = ''NYSE'', session_minutes = (\<lambda>d. if d mod 50 = 49 then 210 else 390),
           half_day = (\<lambda>d. d mod 50 = 49)\<rparr>"

definition cme :: calendar where
  "cme = \<lparr>cal_name = ''us_futures'', session_minutes = (\<lambda>d. 1380), half_day = (\<lambda>d. False)\<rparr>"

definition calendar_service :: "string \<Rightarrow> calendar" where
  "calendar_service n = (if n = ''us_futures'' then cme else nyse)"

definition paper_portfolio :: "nat \<Rightarrow> portfolio_rec" where
  "paper_portfolio n =
     \<lparr>positions = [1 \<mapsto> \<lparr>pos_amount = 100\<rparr>], portfolio_value = 50000 + of_nat n\<rparr>"

definition paper_backend :: "backend_options \<Rightarrow> backend" where
  "paper_backend opts =
     \<lparr>order_reply = (\<lambda>n a k st. Some \<lparr>order_id = ''order-'' @ replicate n CHR ''i'',
                                         order_asset = a, order_amount = k, is_open = True,
                                         order_style = st\<rparr>),
      submitted = [],
      portfolio_feed = paper_portfolio,
      portfolio_fetches = 0,
      account_feed = (\<lambda>n. Account (of_nat n)),
      account_fetches = 0\<rparr>"

definition installed_modules :: "string \<rightharpoonup> pymodule" where
  "installed_modules =
     [''pylivetrader.backend.alpaca'' \<mapsto> Module (Some paper_backend),
      ''mybroker'' \<mapsto> Module (Some paper_backend)]"

definition this_module :: module_env where
  "this_module = algorithm_py installed_modules calendar_service"

definition default_kwargs :: init_kwargs where
  "default_kwargs =
     \<lparr>kw_data_frequency = None, kw_backend = None, kw_backend_options = None,
      kw_trading_calendar = None, kw_initialize = None, kw_handle_data = None,
      kw_before_trading_start = None\<rparr>"

definition fresh :: "string \<Rightarrow> algorithm" where
  "fresh frequency =
     \<lparr>recorded_vars = [], data_frequency = frequency, backend = paper_backend [],
      trading_calendar = nyse,
      event_manager = [\<lparr>event_rule = Always, event_callback = ''handle_data''\<rparr>],
      initialize_fn = ''noop'', handle_data_fn = ''noop'', before_trading_start_fn = ''noop'',
      account_needs_update = True, portfolio_needs_update = True, assets_from_source = [],
      initialized = False, cached_portfolio = None, cached_account = None, datetime = None,
      executor = None, logger = None, log_output = [], warnings_emitted = []\<rparr>"

text \<open>
  Day 200 of the epoch, 09:30 UTC; the assets with sid 2 and sid 5 are reported as not
  tradable.
\<close>

definition now :: pydatetime where
  "now = \<lparr>instant = 200 * 86400 + 34200, tzinfo = UTC\<rparr>"

definition bars :: executor_rec where
  "bars = \<lparr>current_data = \<lparr>can_trade = (\<lambda>a. sid a \<noteq> 2 \<and> sid a \<noteq> 5)\<rparr>\<rparr>"

definition live :: algorithm where
  "live =
     on_dt_changed (set_logger ((fresh ''minute'')\<lparr>executor := Some bars\<rparr>) (Some ''algo'')) now"

definition aapl :: asset where
  "aapl = \<lparr>sid = 1, symbol = ''AAPL'', end_date = 20000 * 86400, auto_close_date = None\<rparr>"

definition msft :: asset where
  "msft = \<lparr>sid = 3, symbol = ''MSFT'', end_date = 20000 * 86400,
            auto_close_date = Some (20003 * 86400)\<rparr>"

text \<open>Delisted: the end date is day 100 and the auto-close date day 103.\<close>

definition delisted :: asset where
  "delisted = \<lparr>sid = 2, symbol = ''OLD'', end_date = 100 * 86400,
                auto_close_date = Some (103 * 86400)\<rparr>"

text \<open>Not tradable on the current bar, with no auto-close date.\<close>

definition halted :: asset where
  "halted = \<lparr>sid = 5, symbol = ''HLT'', end_date = 20000 * 86400, auto_close_date = None\<rparr>"

text \<open>Past its end date (day 100), with no auto-close date.\<close>

definition expired :: asset where
  "expired = \<lparr>sid = 4, symbol = ''EXP'', end_date = 100 * 86400, auto_close_date = None\<rparr>"

section \<open>Lemmas on rounding, the gate and the placement\<close>

lemma py_round_unique:
  assumes "\<bar>a - of_int n\<bar> < 1 / 2"
  shows "py_round a = n"
proof -
  from assms have lo: "of_int n - 1 / 2 < a" and hi: "a < of_int n + 1 / 2"
    by linarith+
  have "\<lfloor>a\<rfloor> = n \<or> \<lfloor>a\<rfloor> = n - 1"
    using lo hi by linarith
  then show ?thesis
  proof
    assume f: "\<lfloor>a\<rfloor> = n"
    then have "a - of_int \<lfloor>a\<rfloor> < 1 / 2" using hi by simp
    then show ?thesis using f by (simp add: py_round_def Let_def)
  next
    assume f: "\<lfloor>a\<rfloor> = n - 1"
    then have "1 / 2 < a - of_int \<lfloor>a\<rfloor>" using lo by simp
    then show ?thesis using f by (simp add: py_round_def Let_def)
  qed
qed

lemma round_order_snap:
  assumes "\<bar>a - of_int n\<bar> \<le> 1 / 10000"
  shows "round_order a = n"
proof -
  have "\<bar>a - of_int n\<bar> < 1 / 2" using assms by linarith
  then have r: "py_round a = n" by (rule py_round_unique)
  show ?thesis using assms r
    by (simp add: round_order_def round_if_near_integer_def default_epsilon_def py_int_def)
qed



lemma round_order_numeral [simp]: "round_order (numeral k) = numeral k"
  using round_order_snap [of "numeral k" "numeral k"] by simp

lemma round_order_zero [simp]: "round_order 0 = 0"
  using round_order_snap [of 0 0] by simp

lemma can_order_asset_True:
  assumes "fst (can_order_asset g s x) = Inr True"
  shows "can_order_asset g s x = (Inr True, s)"
  using assms
  by (auto simp: can_order_asset_def get_datetime_def
      split: order_arg.splits option.splits if_splits)

lemma order_places:
  assumes "fst (can_order_asset g s (IsAsset a)) = Inr True"
    and "convert_order_params_for_blotter limit_price stop_price style_arg = Inr st"
  shows "order g s (IsAsset a) amount limit_price stop_price style_arg =
           (Inr (map_option order_id
                   (order_reply (backend s) (length (submitted (backend s))) a
                      (round_order amount) st)),
            s\<lparr>backend := (backend s)\<lparr>submitted :=
                 submitted (backend s) @ [(a, round_order amount, st)]\<rparr>\<rparr>)"
  using can_order_asset_True [OF assms(1)] assms(2)
  by (simp add: order_def calculate_order_def backend_order_def)

lemma gate_closed:
  assumes "auto_close_date a = Some acd" and "datetime s = Some dt" and "tzinfo dt = UTC"
    and "acd < instant (normalize_date dt)"
  shows "can_order_asset g s (IsAsset a) =
           (if name_log g
            then (Inr False, s\<lparr>log_output := log_output s @ [Warn (not_tradable_msg a)]\<rparr>)
            else (Inl (NameError ''log''), s))"
  using assms by (simp add: can_order_asset_def get_datetime_def min_def)

lemmas installation =
  live_def on_dt_changed_def set_logger_def fresh_def paper_backend_def bars_def
  now_def normalize_date_def this_module_def algorithm_py_def

section \<open>Rounding of share counts\<close>



section \<open>The tradability gate\<close>

text \<open>
  C10. For every asset whose \<open>auto_close_date\<close> is absent, \<open>_can_order_asset\<close> returns true
  whatever the asset's \<open>end_date\<close> and whatever the clock holds (the state is arbitrary:
  the clock is not even read), so \<open>order\<close> goes on to place the order with the backend
  whenever the style arguments resolve.
\<close>

theorem can_order_asset_no_auto_close_date:
  assumes "auto_close_date a = None"
  shows "can_order_asset g s (IsAsset a) = (Inr True, s) \<and>
         (convert_order_params_for_blotter limit_price stop_price style_arg = Inr st \<longrightarrow>
          order g s (IsAsset a) amount limit_price stop_price style_arg =
           (Inr (map_option order_id
                   (order_reply (backend s) (length (submitted (backend s))) a
                      (round_order amount) st)),
            s\<lparr>backend := (backend s)\<lparr>submitted :=
                 submitted (backend s) @ [(a, round_order amount, st)]\<rparr>\<rparr>))"
proof -
  have g: "can_order_asset g s (IsAsset a) = (Inr True, s)"
    using assms by (simp add: can_order_asset_def)
  then show ?thesis by (simp add: order_places)
qed

text \<open>
  The theorem at an asset past its end date with no auto-close date: the gate answers
  true and the order for 10 shares reaches the backend.
\<close>

theorem can_order_asset_no_auto_close_date_witness:
  "auto_close_date expired = None
   \<and> end_date expired < instant (normalize_date now)
   \<and> datetime live = Some now
   \<and> fst (can_order_asset this_module live (IsAsset expired)) = Inr True
   \<and> convert_order_params_for_blotter None None None = Inr MarketOrder
   \<and> fst (order this_module live (IsAsset expired) 10 None None None) = Inr (Some ''order-'')
   \<and> submitted (backend (snd (order this_module live (IsAsset expired) 10 None None None)))
       = [(expired, 10, MarketOrder)]"
proof -
  have a: "auto_close_date expired = None" by (simp add: expired_def)
  have c: "convert_order_params_for_blotter None None None = Inr MarketOrder"
    by (simp add: convert_order_params_for_blotter_def truthy_def)
  have d: "end_date expired < instant (normalize_date now)" "datetime live = Some now"
    by (simp_all add: expired_def installation)
  have e: "submitted (backend live) = []"
    "order_reply (backend live) 0 expired 10 MarketOrder
       = Some \<lparr>order_id = ''order-'', order_asset = expired, order_amount = 10,
               is_open = True, order_style = MarketOrder\<rparr>"
    by (simp_all add: installation)
  from can_order_asset_no_auto_close_date
    [OF a, where g = this_module and s = live and limit_price = None and stop_price = None
      and style_arg = None and st = MarketOrder and amount = 10]
  show ?thesis using a c d e by simp
qed

text \<open>
  C1, as the claim states it, at an asset whose auto-close date (day 103) precedes the
  current day (day 200) and that the bar data reports as not tradable: \<open>order_value\<close>
  does not raise \<open>CannotOrderDelistedAsset\<close>. The gate \<open>_can_order_asset\<close> comes first; in
  the module as written its call of \<open>log.warn\<close> raises \<open>NameError\<close>, and with \<open>log\<close> bound
  the gate answers false and \<open>order_value\<close> returns \<open>None\<close>.
\<close>

theorem order_value_past_auto_close_counterexample:
  "auto_close_date delisted = Some (103 * 86400)
   \<and> 103 * 86400 < instant (normalize_date now)
   \<and> datetime live = Some now
   \<and> executor live = Some bars
   \<and> \<not> can_trade (current_data bars) delisted
   \<and> order_value this_module live (IsAsset delisted) 1000 None None None
       = (Inl (NameError ''log''), live)
   \<and> fst (order_value (this_module\<lparr>name_log := True\<rparr>) live (IsAsset delisted) 1000 None None None)
       = Inr None"
  by (simp add: order_value_def can_order_asset_def get_datetime_def delisted_def installation)

lemma order_gate_closed:
  assumes "fst (can_order_asset g s x) \<noteq> Inr True"
  shows "order g s x amount limit_price stop_price style_arg =
           (case can_order_asset g s x of
              (Inl e, s1) \<Rightarrow> (Inl e, s1) | (Inr ok, s1) \<Rightarrow> (Inr None, s1))"
  using assms by (auto simp: order_def split: prod.splits sum.splits bool.splits)

lemma order_value_gate_closed:
  assumes "fst (can_order_asset g s x) \<noteq> Inr True"
  shows "order_value g s x v limit_price stop_price style_arg =
           (case can_order_asset g s x of
              (Inl e, s1) \<Rightarrow> (Inl e, s1) | (Inr ok, s1) \<Rightarrow> (Inr None, s1))"
  using assms by (auto simp: order_value_def split: prod.splits sum.splits bool.splits)

text \<open>
  C1, amended. For an asset that the gate \<open>_can_order_asset\<close> lets through and that the
  bar data reports as not tradable, \<open>order_value\<close> raises \<open>CannotOrderDelistedAsset\<close> and
  leaves the algorithm as it was. For an asset whose auto-close date precedes the
  current day, \<open>order_value\<close> and \<open>order\<close> end alike, inside the gate: neither raises
  \<open>CannotOrderDelistedAsset\<close> and neither reaches the backend.
\<close>

theorem order_value_delisted_behind_the_gate:
  "(fst (can_order_asset g s (IsAsset a)) = Inr True \<and> executor s = Some ex
      \<and> \<not> can_trade (current_data ex) a \<longrightarrow>
      order_value g s (IsAsset a) v limit_price stop_price style_arg
        = (Inl (CannotOrderDelistedAsset (delisted_msg a)), s))
   \<and> (auto_close_date a = Some acd \<and> datetime s = Some dt \<and> tzinfo dt = UTC
      \<and> acd < instant (normalize_date dt) \<longrightarrow>
      order_value g s (IsAsset a) v limit_price stop_price style_arg
        = order g s (IsAsset a) amount limit_price stop_price style_arg
      \<and> (\<forall>m. fst (order g s (IsAsset a) amount limit_price stop_price style_arg)
               \<noteq> Inl (CannotOrderDelistedAsset m))
      \<and> backend (snd (order g s (IsAsset a) amount limit_price stop_price style_arg)) = backend s)"
proof -
  have first: "order_value g s (IsAsset a) v limit_price stop_price style_arg
        = (Inl (CannotOrderDelistedAsset (delisted_msg a)), s)"
    if "fst (can_order_asset g s (IsAsset a)) = Inr True" and "executor s = Some ex"
      and "\<not> can_trade (current_data ex) a"
    using can_order_asset_True [OF that(1)] that(2,3)
    by (simp add: order_value_def calculate_order_value_amount_def)
  have second: "order_value g s (IsAsset a) v limit_price stop_price style_arg
        = order g s (IsAsset a) amount limit_price stop_price style_arg
      \<and> (\<forall>m. fst (order g s (IsAsset a) amount limit_price stop_price style_arg)
               \<noteq> Inl (CannotOrderDelistedAsset m))
      \<and> backend (snd (order g s (IsAsset a) amount limit_price stop_price style_arg)) = backend s"
    if "auto_close_date a = Some acd" and "datetime s = Some dt" and "tzinfo dt = UTC"
      and "acd < instant (normalize_date dt)"
  proof -
    note gate = gate_closed [OF that, of g]
    then have closed: "fst (can_order_asset g s (IsAsset a)) \<noteq> Inr True"
      by (simp split: if_splits)
    show ?thesis
      unfolding order_gate_closed [OF closed] order_value_gate_closed [OF closed]
      by (simp add: gate)
  qed
  show ?thesis using first second by blast
qed

text \<open>
  The theorem at a halted asset with no auto-close date (the error is raised) and at the
  delisted asset (both calls end in the gate, the backend untouched).
\<close>

theorem order_value_delisted_behind_the_gate_witness:
  "fst (can_order_asset this_module live (IsAsset halted)) = Inr True
   \<and> executor live = Some bars \<and> \<not> can_trade (current_data bars) halted
   \<and> fst (order_value this_module live (IsAsset halted) 1000 None None None)
       = Inl (CannotOrderDelistedAsset ''Cannot order HLT, as it not tradable'')
   \<and> auto_close_date delisted = Some (103 * 86400) \<and> datetime live = Some now
   \<and> tzinfo now = UTC \<and> 103 * 86400 < instant (normalize_date now)
   \<and> order_value this_module live (IsAsset delisted) 1000 None None None
       = order this_module live (IsAsset delisted) 10 None None None
   \<and> backend (snd (order this_module live (IsAsset delisted) 10 None None None)) = backend live"
proof -
  have h1: "fst (can_order_asset this_module live (IsAsset halted)) = Inr True"
    by (simp add: can_order_asset_def halted_def)
  have h2: "executor live = Some bars" "\<not> can_trade (current_data bars) halted"
    by (simp_all add: installation halted_def)
  have h3: "auto_close_date delisted = Some (103 * 86400)" "datetime live = Some now"
    "tzinfo now = UTC" "103 * 86400 < instant (normalize_date now)"
    by (simp_all add: installation delisted_def)
  have m: "delisted_msg halted = ''Cannot order HLT, as it not tradable''"
    by (simp add: delisted_msg_def halted_def)
  from order_value_delisted_behind_the_gate
    [where g = this_module and s = live and a = halted and ex = bars and v = 1000
      and limit_price = None and stop_price = None and style_arg = None]
  have one: "fst (order_value this_module live (IsAsset halted) 1000 None None None)
       = Inl (CannotOrderDelistedAsset ''Cannot order HLT, as it not tradable'')"
    using h1 h2 m by simp
  from order_value_delisted_behind_the_gate
    [where g = this_module and s = live and a = delisted and acd = "103 * 86400" and dt = now
      and v = 1000 and amount = 10 and limit_price = None and stop_price = None
      and style_arg = None]
  have two: "order_value this_module live (IsAsset delisted) 1000 None None None
       = order this_module live (IsAsset delisted) 10 None None None"
    "backend (snd (order this_module live (IsAsset delisted) 10 None None None)) = backend live"
    using h3 by simp_all
  show ?thesis using h1 h2 h3 one two by simp
qed

section \<open>Resolution of the execution style\<close>

text \<open>
  C5, as the claim states it, at a price that is set to zero: with only the limit price
  set (to 0) the helper yields Market, not Limit; with both set and the limit 0 it
  yields Stop, and with both set and the stop 0 it yields Limit, not StopLimit.
\<close>

theorem convert_zero_price_counterexample:
  "convert_order_params_for_blotter (Some 0) None None = Inr MarketOrder
   \<and> convert_order_params_for_blotter (Some 0) (Some 5) None = Inr (StopOrder 5)
   \<and> convert_order_params_for_blotter (Some 5) (Some 0) None = Inr (LimitOrder 5)"
  by (simp add: convert_order_params_for_blotter_def truthy_def)

text \<open>
  C5, amended. A price counts as set when it is given and not zero. A given style is
  returned as it is when both prices are \<open>None\<close>; with no style, both prices set yield
  StopLimit, only the limit set yields Limit, only the stop set yields Stop, and neither
  set yields Market.
\<close>

theorem convert_order_params_precedence:
  "convert_order_params_for_blotter None None (Some st) = Inr st
   \<and> (l \<noteq> 0 \<and> p \<noteq> 0 \<longrightarrow>
      convert_order_params_for_blotter (Some l) (Some p) None = Inr (StopLimitOrder l p))
   \<and> (l \<noteq> 0 \<and> (no_stop = None \<or> no_stop = Some 0) \<longrightarrow>
      convert_order_params_for_blotter (Some l) no_stop None = Inr (LimitOrder l))
   \<and> (p \<noteq> 0 \<and> (no_limit = None \<or> no_limit = Some 0) \<longrightarrow>
      convert_order_params_for_blotter no_limit (Some p) None = Inr (StopOrder p))
   \<and> ((no_limit = None \<or> no_limit = Some 0) \<and> (no_stop = None \<or> no_stop = Some 0) \<longrightarrow>
      convert_order_params_for_blotter no_limit no_stop None = Inr MarketOrder)"
  by (auto simp: convert_order_params_for_blotter_def truthy_def split: option.splits)

text \<open>The theorem at one input for each of the five cases.\<close>

theorem convert_order_params_precedence_witness:
  "convert_order_params_for_blotter None None (Some (LimitOrder 10)) = Inr (LimitOrder 10)
   \<and> convert_order_params_for_blotter (Some 10) (Some 9) None = Inr (StopLimitOrder 10 9)
   \<and> convert_order_params_for_blotter (Some 10) None None = Inr (LimitOrder 10)
   \<and> convert_order_params_for_blotter None (Some 9) None = Inr (StopOrder 9)
   \<and> convert_order_params_for_blotter None None None = Inr MarketOrder"
  using convert_order_params_precedence
    [where no_limit = None and no_stop = None and st = "LimitOrder 10" and l = 10 and p = 9]
  by simp

section \<open>The portfolio and account caches\<close>

text \<open>
  The invariant holds after construction and every operation on the caches keeps it.
\<close>

lemma caches_ready_init:
  assumes "init g kw = Inr s"
  shows "caches_ready s"
  using assms
  by (auto simp: init_def Let_def caches_ready_def split: if_splits sum.splits)

lemma caches_ready_on_dt_changed: "caches_ready (on_dt_changed s dt)"
  by (simp add: on_dt_changed_def caches_ready_def)

lemma caches_ready_portfolio:
  assumes "caches_ready s"
  shows "caches_ready (snd (portfolio s))"
  using assms
  by (auto simp: portfolio_def backend_portfolio_def Let_def caches_ready_def
      split: option.splits if_splits)

lemma caches_ready_account:
  assumes "caches_ready s"
  shows "caches_ready (snd (account s))"
  using assms
  by (auto simp: account_def backend_account_def Let_def caches_ready_def
      split: option.splits if_splits)

lemma portfolio_dirty:
  assumes "portfolio_needs_update s"
  shows "portfolio s =
           (Inr (portfolio_feed (backend s) (portfolio_fetches (backend s))),
            s\<lparr>backend := (backend s)\<lparr>portfolio_fetches := Suc (portfolio_fetches (backend s))\<rparr>,
              cached_portfolio := Some (portfolio_feed (backend s) (portfolio_fetches (backend s))),
              portfolio_needs_update := False\<rparr>)"
  using assms by (simp add: portfolio_def backend_portfolio_def)

lemma portfolio_clean:
  assumes "\<not> portfolio_needs_update s" and "cached_portfolio s = Some p"
  shows "portfolio s = (Inr p, s)"
  using assms by (simp add: portfolio_def)

lemma account_dirty:
  assumes "account_needs_update s"
  shows "account s =
           (Inr (account_feed (backend s) (account_fetches (backend s))),
            s\<lparr>backend := (backend s)\<lparr>account_fetches := Suc (account_fetches (backend s))\<rparr>,
              cached_account := Some (account_feed (backend s) (account_fetches (backend s))),
              account_needs_update := False\<rparr>)"
  using assms by (simp add: account_def backend_account_def)

lemma account_clean:
  assumes "\<not> account_needs_update s" and "cached_account s = Some a"
  shows "account s = (Inr a, s)"
  using assms by (simp add: account_def)

lemma portfolio_read_twice:
  assumes "caches_ready s"
  shows "\<exists>p s1. portfolio s = (Inr p, s1) \<and> portfolio s1 = (Inr p, s1)
           \<and> portfolio_fetches (backend s1) \<le> Suc (portfolio_fetches (backend s))"
proof (cases "portfolio_needs_update s")
  case True
  show ?thesis
    unfolding portfolio_dirty [OF True]
    by (intro exI conjI, rule refl, rule portfolio_clean) simp_all
next
  case False
  with assms obtain p where "cached_portfolio s = Some p"
    by (auto simp: caches_ready_def)
  with False have "portfolio s = (Inr p, s)" by (rule portfolio_clean)
  then show ?thesis by simp
qed

lemma account_read_twice:
  assumes "caches_ready s"
  shows "\<exists>a s1. account s = (Inr a, s1) \<and> account s1 = (Inr a, s1)
           \<and> account_fetches (backend s1) \<le> Suc (account_fetches (backend s))"
proof (cases "account_needs_update s")
  case True
  show ?thesis
    unfolding account_dirty [OF True]
    by (intro exI conjI, rule refl, rule account_clean) simp_all
next
  case False
  with assms obtain a where "cached_account s = Some a"
    by (auto simp: caches_ready_def)
  with False have "account s = (Inr a, s)" by (rule account_clean)
  then show ?thesis by simp
qed

lemma portfolio_after_dt_changed:
  "\<exists>s2. portfolio (on_dt_changed s dt)
           = (Inr (portfolio_feed (backend s) (portfolio_fetches (backend s))), s2)
        \<and> portfolio_fetches (backend s2) = Suc (portfolio_fetches (backend s))
        \<and> portfolio s2 = (Inr (portfolio_feed (backend s) (portfolio_fetches (backend s))), s2)"
  by (simp add: portfolio_def backend_portfolio_def Let_def on_dt_changed_def)

lemma account_after_dt_changed:
  "\<exists>s2. account (on_dt_changed s dt)
           = (Inr (account_feed (backend s) (account_fetches (backend s))), s2)
        \<and> account_fetches (backend s2) = Suc (account_fetches (backend s))
        \<and> account s2 = (Inr (account_feed (backend s) (account_fetches (backend s))), s2)"
  by (simp add: account_def backend_account_def Let_def on_dt_changed_def)

text \<open>
  C6. Two consecutive reads of \<open>portfolio\<close> (of \<open>account\<close>) with no clock advance between
  them return the same snapshot, the second without touching the algorithm, and fetch
  from the backend at most once; \<open>on_dt_changed\<close> sets both dirty flags, and the next read
  of either property fetches exactly once, returns the snapshot fetched, and a further
  read returns it again without a fetch.
\<close>

theorem caches_hold_until_dt_changed:
  assumes "caches_ready s"
  shows "(\<exists>p s1. portfolio s = (Inr p, s1) \<and> portfolio s1 = (Inr p, s1)
            \<and> portfolio_fetches (backend s1) \<le> Suc (portfolio_fetches (backend s)))
       \<and> (\<exists>a s1. account s = (Inr a, s1) \<and> account s1 = (Inr a, s1)
            \<and> account_fetches (backend s1) \<le> Suc (account_fetches (backend s)))
       \<and> portfolio_needs_update (on_dt_changed s dt)
       \<and> account_needs_update (on_dt_changed s dt)
       \<and> (\<exists>s2. portfolio (on_dt_changed s dt)
                  = (Inr (portfolio_feed (backend s) (portfolio_fetches (backend s))), s2)
             \<and> portfolio_fetches (backend s2) = Suc (portfolio_fetches (backend s))
             \<and> portfolio s2
                  = (Inr (portfolio_feed (backend s) (portfolio_fetches (backend s))), s2))
       \<and> (\<exists>s2. account (on_dt_changed s dt)
                  = (Inr (account_feed (backend s) (account_fetches (backend s))), s2)
             \<and> account_fetches (backend s2) = Suc (account_fetches (backend s))
             \<and> account s2
                  = (Inr (account_feed (backend s) (account_fetches (backend s))), s2))"
proof -
  have flags: "portfolio_needs_update (on_dt_changed s dt)"
    "account_needs_update (on_dt_changed s dt)"
    by (simp_all add: on_dt_changed_def)
  show ?thesis
    using portfolio_read_twice [OF assms] account_read_twice [OF assms] flags
      portfolio_after_dt_changed [of s dt] account_after_dt_changed [of s dt]
    by blast
qed

text \<open>
  The theorem on the running algorithm: the first read fetches snapshot 0, the second
  read returns it again although the backend would now answer snapshot 1, and after
  \<open>on_dt_changed\<close> the read fetches snapshot 1; two fetches in all.
\<close>

theorem caches_hold_until_dt_changed_witness:
  "caches_ready live
   \<and> fst (portfolio live) = Inr (paper_portfolio 0)
   \<and> fst (portfolio (snd (portfolio live))) = Inr (paper_portfolio 0)
   \<and> portfolio_fetches (backend (snd (portfolio (snd (portfolio live))))) = 1
   \<and> portfolio_needs_update (on_dt_changed (snd (portfolio live)) now)
   \<and> fst (portfolio (on_dt_changed (snd (portfolio live)) now)) = Inr (paper_portfolio 1)
   \<and> portfolio_fetches (backend (snd (portfolio (on_dt_changed (snd (portfolio live)) now)))) = 2"
proof -
  define s1 where "s1 = snd (portfolio live)"
  have r: "caches_ready live"
    by (simp add: caches_ready_def installation)
  have first: "portfolio live = (Inr (paper_portfolio 0), s1)"
    and s1: "portfolio_fetches (backend s1) = 1" "portfolio_feed (backend s1) = paper_portfolio"
    unfolding s1_def by (simp_all add: portfolio_def backend_portfolio_def installation)
  have r1: "caches_ready s1"
    unfolding s1_def using r by (rule caches_ready_portfolio)
  from caches_hold_until_dt_changed [OF r, of now] first
  have second: "portfolio s1 = (Inr (paper_portfolio 0), s1)"
    by auto
  from caches_hold_until_dt_changed [OF r1, of now] s1 obtain s2 where
    third: "portfolio_needs_update (on_dt_changed s1 now)"
      "portfolio (on_dt_changed s1 now) = (Inr (paper_portfolio 1), s2)"
      "portfolio_fetches (backend s2) = 2"
    by auto
  show ?thesis using r first second s1 third by simp
qed

section \<open>Sizing by target and by value\<close>

lemma portfolio_again:
  assumes "portfolio s = (Inr p, s1)"
  shows "portfolio s1 = (Inr p, s1)"
proof (cases "portfolio_needs_update s")
  case True
  from assms show ?thesis
    unfolding portfolio_dirty [OF True]
    by (auto intro: portfolio_clean)
next
  case False
  with assms show ?thesis
    by (auto simp: portfolio_def split: option.splits)
qed

lemma calculate_order_target_amount_eq:
  assumes "portfolio s = (Inr p, s1)"
  shows "calculate_order_target_amount s a target =
           (Inr (target - (case positions p (sid a) of None \<Rightarrow> 0 | Some pos \<Rightarrow> pos_amount pos)), s1)"
  using assms portfolio_again [OF assms]
  by (simp add: calculate_order_target_amount_def split: option.splits)

text \<open>
  C4. For every asset the gate lets through and every target, \<open>order_target\<close> reads the
  portfolio and calls \<open>order\<close> with the target minus the amount held in the asset, the
  amount held taken as 0 when the portfolio has no position in it.
\<close>

theorem order_target_orders_difference:
  assumes "fst (can_order_asset g s (IsAsset a)) = Inr True" and "caches_ready s"
  shows "\<exists>p. fst (portfolio s) = Inr p
           \<and> order_target g s (IsAsset a) target limit_price stop_price style_arg =
               order g (snd (portfolio s)) (IsAsset a)
                 (target - (case positions p (sid a) of None \<Rightarrow> 0 | Some pos \<Rightarrow> pos_amount pos))
                 limit_price stop_price style_arg"
proof -
  from portfolio_read_twice [OF assms(2)] obtain p s1 where p: "portfolio s = (Inr p, s1)"
    by blast
  have "order_target g s (IsAsset a) target limit_price stop_price style_arg =
          order g s1 (IsAsset a)
            (target - (case positions p (sid a) of None \<Rightarrow> 0 | Some pos \<Rightarrow> pos_amount pos))
            limit_price stop_price style_arg"
    using can_order_asset_True [OF assms(1)] calculate_order_target_amount_eq [OF p]
    by (simp add: order_target_def)
  with p show ?thesis by simp
qed

lemma can_order_asset_clock:
  assumes "datetime s' = datetime s"
  shows "fst (can_order_asset g s' x) = fst (can_order_asset g s x)"
  using assms
  by (auto simp: can_order_asset_def get_datetime_def
      split: order_arg.splits option.splits if_splits)

lemma portfolio_frame:
  "datetime (snd (portfolio s)) = datetime s"
  "submitted (backend (snd (portfolio s))) = submitted (backend s)"
  "order_reply (backend (snd (portfolio s))) = order_reply (backend s)"
  by (simp_all add: portfolio_def backend_portfolio_def Let_def split: option.splits)

text \<open>
  The theorem with 100 shares held, where a target of 150 places an order for 50, and
  with no position, where it places an order for 150.
\<close>

theorem order_target_orders_difference_witness:
  "fst (can_order_asset this_module live (IsAsset aapl)) = Inr True
   \<and> fst (can_order_asset this_module live (IsAsset msft)) = Inr True
   \<and> caches_ready live
   \<and> positions (paper_portfolio 0) (sid aapl) = Some \<lparr>pos_amount = 100\<rparr>
   \<and> positions (paper_portfolio 0) (sid msft) = None
   \<and> submitted (backend (snd (order_target this_module live (IsAsset aapl) 150 None None None)))
       = [(aapl, 50, MarketOrder)]
   \<and> submitted (backend (snd (order_target this_module live (IsAsset msft) 150 None None None)))
       = [(msft, 150, MarketOrder)]"
proof -
  have g1: "fst (can_order_asset this_module live (IsAsset aapl)) = Inr True"
    by (simp add: can_order_asset_def aapl_def)
  have g2: "fst (can_order_asset this_module live (IsAsset msft)) = Inr True"
    by (simp add: can_order_asset_def get_datetime_def msft_def installation)
  have r: "caches_ready live"
    by (simp add: caches_ready_def installation)
  have p: "fst (portfolio live) = Inr (paper_portfolio 0)"
    by (simp add: portfolio_def backend_portfolio_def installation)
  have held: "positions (paper_portfolio 0) (sid aapl) = Some \<lparr>pos_amount = 100\<rparr>"
    "positions (paper_portfolio 0) (sid msft) = None"
    by (simp_all add: paper_portfolio_def aapl_def msft_def)
  have c: "convert_order_params_for_blotter None None None = Inr MarketOrder"
    by (simp add: convert_order_params_for_blotter_def truthy_def)
  have e: "submitted (backend live) = []" by (simp add: installation)
  have g1': "fst (can_order_asset this_module (snd (portfolio live)) (IsAsset aapl)) = Inr True"
    using g1 can_order_asset_clock [of "snd (portfolio live)" live this_module "IsAsset aapl"]
    by (simp add: portfolio_frame)
  have g2': "fst (can_order_asset this_module (snd (portfolio live)) (IsAsset msft)) = Inr True"
    using g2 can_order_asset_clock [of "snd (portfolio live)" live this_module "IsAsset msft"]
    by (simp add: portfolio_frame)
  from order_target_orders_difference [OF g1 r, of 150 None None None] p held
  have "order_target this_module live (IsAsset aapl) 150 None None None
          = order this_module (snd (portfolio live)) (IsAsset aapl) (150 - 100) None None None"
    by simp
  then have one:
    "submitted (backend (snd (order_target this_module live (IsAsset aapl) 150 None None None)))
       = [(aapl, 50, MarketOrder)]"
    by (simp add: order_places [OF g1' c] portfolio_frame e)
  from order_target_orders_difference [OF g2 r, of 150 None None None] p held
  have "order_target this_module live (IsAsset msft) 150 None None None
          = order this_module (snd (portfolio live)) (IsAsset msft) 150 None None None"
    by simp
  then have two:
    "submitted (backend (snd (order_target this_module live (IsAsset msft) 150 None None None)))
       = [(msft, 150, MarketOrder)]"
    by (simp add: order_places [OF g2' c] portfolio_frame e)
  show ?thesis using g1 g2 r held one two by simp
qed

text \<open>
  C3. The claim: for a tradable asset whose last known price is tolerantly zero,
  \<open>order_value\<close> returns 0 and places no order. The code at such an input: in the module
  as written the read of \<open>last_price\<close> raises \<open>NameError\<close>; and with \<open>last_price\<close> bound to
  0.00000001 the sizing returns 0, \<open>order_value\<close> passes it on to \<open>order\<close>, and \<open>order\<close>
  places an order for 0 shares with the backend and returns its id.
\<close>

theorem order_value_zero_price_evaluated:
  "fst (can_order_asset this_module live (IsAsset aapl)) = Inr True
   \<and> executor live = Some bars
   \<and> can_trade (current_data bars) aapl
   \<and> order_value this_module live (IsAsset aapl) 1000 None None None
       = (Inl (NameError ''last_price''), live)
   \<and> tolerant_equals (1 / 100000000) 0 default_atol default_rtol
   \<and> fst (order_value (this_module\<lparr>name_last_price := Some (1 / 100000000)\<rparr>) live
            (IsAsset aapl) 1000 None None None) = Inr (Some ''order-'')
   \<and> submitted (backend (snd (order_value (this_module\<lparr>name_last_price := Some (1 / 100000000)\<rparr>)
            live (IsAsset aapl) 1000 None None None))) = [(aapl, 0, MarketOrder)]"
  by (simp add: order_value_def order_def can_order_asset_def calculate_order_value_amount_def
      aapl_def installation tolerant_equals_def default_atol_def default_rtol_def
      calculate_order_def convert_order_params_for_blotter_def truthy_def backend_order_def)

section \<open>Scheduled functions\<close>

text \<open>
  C7. The claim: any calendar other than \<open>None\<close>, \<open>US_EQUITIES\<close> and \<open>US_FUTURES\<close> fails with
  the invalid-calendar error that lists the two accepted sentinels. The code at the
  calendar \<open>US_BONDS\<close>: in the module as written the read of the exception's name
  \<open>ScheduleFunctionInvalidCalendar\<close> raises \<open>NameError\<close>; with the name bound the error
  is the one the claim describes. \<open>None\<close> and the two sentinels do not raise.
\<close>

theorem schedule_function_unknown_calendar_evaluated:
  "schedule_function this_module (fresh ''minute'') ''rebalance'' None None True
       (Some (OtherSentinel ''US_BONDS''))
     = (Inl (NameError ''ScheduleFunctionInvalidCalendar''), fresh ''minute'')
   \<and> schedule_function (this_module\<lparr>name_ScheduleFunctionInvalidCalendar := True\<rparr>)
       (fresh ''minute'') ''rebalance'' None None True (Some (OtherSentinel ''US_BONDS''))
     = (Inl (ScheduleFunctionInvalidCalendar (OtherSentinel ''US_BONDS'')
               ''[calendars.US_EQUITIES, calendars.US_FUTURES]''), fresh ''minute'')
   \<and> fst (schedule_function this_module (fresh ''minute'') ''rebalance'' None None True None)
       = Inr ()
   \<and> fst (schedule_function this_module (fresh ''minute'') ''rebalance'' None None True
            (Some US_EQUITIES)) = Inr ()
   \<and> fst (schedule_function this_module (fresh ''minute'') ''rebalance'' None None True
            (Some US_FUTURES)) = Inr ()"
  by (simp add: schedule_function_def Let_def is_AfterOpen_or_BeforeClose_def this_module_def
      algorithm_py_def allowed_calendars_def)

lemma schedule_function_registers:
  assumes "schedule_function g s func date_rule time_rule half_days calendar_arg = (Inr (), s')"
  shows "\<exists>cal. event_manager s' = event_manager s @
            [\<lparr>event_rule =
                EventRule (case date_rule of None \<Rightarrow> Always | Some r \<Rightarrow> r)
                  (if data_frequency s = ''minute''
                   then (case time_rule of None \<Rightarrow> Always | Some r \<Rightarrow> r) else Always)
                  cal half_days,
              event_callback = func\<rparr>]
          \<and> data_frequency s' = data_frequency s
          \<and> trading_calendar s' = trading_calendar s"
  using assms
  by (auto simp: schedule_function_def Let_def add_event_def manager_add_event_def
      make_eventrule_def split: option.splits calendar_sentinel.splits if_splits)

text \<open>
  C8. In daily mode a call with an explicit time rule does what the call with the
  every-minute rule does; the event it registers carries the every-minute rule in place
  of the time rule given, and on every session it fires once if the session is eligible
  (the date rule holds on the session's bar and the session is not an excluded half
  day) and not at all otherwise. In minute mode an absent time rule is registered as
  the every-minute rule.
\<close>

theorem schedule_function_time_rule:
  "(data_frequency s = ''daily'' \<longrightarrow>
      schedule_function g s func date_rule (Some time_rule) half_days calendar_arg
        = schedule_function g s func date_rule (Some Always) half_days calendar_arg
      \<and> (\<forall>s'. schedule_function g s func date_rule (Some time_rule) half_days calendar_arg
                 = (Inr (), s') \<longrightarrow>
            (\<exists>cal. event_manager s' = event_manager s @
                      [\<lparr>event_rule =
                          EventRule (case date_rule of None \<Rightarrow> Always | Some r \<Rightarrow> r) Always
                            cal half_days,
                        event_callback = func\<rparr>]
                \<and> (\<forall>session.
                      times_fired s' (last (event_manager s')) session =
                        (if should_trigger (case date_rule of None \<Rightarrow> Always | Some r \<Rightarrow> r) cal
                              session (session_minutes (trading_calendar s) session)
                            \<and> (half_days \<or> \<not> half_day cal session)
                         then 1 else 0)))))
   \<and> (data_frequency s = ''minute'' \<longrightarrow>
        (\<forall>s'. schedule_function g s func date_rule None half_days calendar_arg = (Inr (), s') \<longrightarrow>
            (\<exists>cal. event_manager s' = event_manager s @
                      [\<lparr>event_rule =
                          EventRule (case date_rule of None \<Rightarrow> Always | Some r \<Rightarrow> r) Always
                            cal half_days,
                        event_callback = func\<rparr>])))"
proof (intro conjI impI allI)
  assume d: "data_frequency s = ''daily''"
  then show "schedule_function g s func date_rule (Some time_rule) half_days calendar_arg
        = schedule_function g s func date_rule (Some Always) half_days calendar_arg"
    by (simp add: schedule_function_def Let_def)
next
  fix s'
  assume d: "data_frequency s = ''daily''"
    and r: "schedule_function g s func date_rule (Some time_rule) half_days calendar_arg
              = (Inr (), s')"
  from schedule_function_registers [OF r] d obtain cal where
    ev: "event_manager s' = event_manager s @
            [\<lparr>event_rule =
                EventRule (case date_rule of None \<Rightarrow> Always | Some r \<Rightarrow> r) Always cal half_days,
              event_callback = func\<rparr>]"
    and fr: "data_frequency s' = ''daily''" "trading_calendar s' = trading_calendar s"
    by auto
  have "\<forall>session.
          times_fired s' (last (event_manager s')) session =
            (if should_trigger (case date_rule of None \<Rightarrow> Always | Some r \<Rightarrow> r) cal
                  session (session_minutes (trading_calendar s) session)
                \<and> (half_days \<or> \<not> half_day cal session)
             then 1 else 0)"
    by (simp add: ev fr times_fired_def session_bars_def)
  with ev show "\<exists>cal. event_manager s' = event_manager s @
                      [\<lparr>event_rule =
                          EventRule (case date_rule of None \<Rightarrow> Always | Some r \<Rightarrow> r) Always
                            cal half_days,
                        event_callback = func\<rparr>]
                \<and> (\<forall>session.
                      times_fired s' (last (event_manager s')) session =
                        (if should_trigger (case date_rule of None \<Rightarrow> Always | Some r \<Rightarrow> r) cal
                              session (session_minutes (trading_calendar s) session)
                            \<and> (half_days \<or> \<not> half_day cal session)
                         then 1 else 0))"
    by blast
next
  fix s'
  assume m: "data_frequency s = ''minute''"
    and r: "schedule_function g s func date_rule None half_days calendar_arg = (Inr (), s')"
  from schedule_function_registers [OF r] m
  show "\<exists>cal. event_manager s' = event_manager s @
                      [\<lparr>event_rule =
                          EventRule (case date_rule of None \<Rightarrow> Always | Some r \<Rightarrow> r) Always
                            cal half_days,
                        event_callback = func\<rparr>]"
    by auto
qed

text \<open>
  The theorem in daily mode with the time rule \<open>AfterOpen 30\<close>, which fires once on
  session 7, and in minute mode with no time rule.
\<close>

theorem schedule_function_time_rule_witness:
  "data_frequency (fresh ''daily'') = ''daily''
   \<and> fst (schedule_function this_module (fresh ''daily'') ''rebalance'' None
            (Some (AfterOpen 30)) True None) = Inr ()
   \<and> event_manager (snd (schedule_function this_module (fresh ''daily'') ''rebalance'' None
            (Some (AfterOpen 30)) True None))
       = [\<lparr>event_rule = Always, event_callback = ''handle_data''\<rparr>,
          \<lparr>event_rule = EventRule Always Always nyse True, event_callback = ''rebalance''\<rparr>]
   \<and> times_fired (snd (schedule_function this_module (fresh ''daily'') ''rebalance'' None
            (Some (AfterOpen 30)) True None))
        \<lparr>event_rule = EventRule Always Always nyse True, event_callback = ''rebalance''\<rparr> 7 = 1
   \<and> data_frequency (fresh ''minute'') = ''minute''
   \<and> fst (schedule_function this_module (fresh ''minute'') ''rebalance'' None None True None)
       = Inr ()
   \<and> event_manager (snd (schedule_function this_module (fresh ''minute'') ''rebalance'' None
            None True None))
       = [\<lparr>event_rule = Always, event_callback = ''handle_data''\<rparr>,
          \<lparr>event_rule = EventRule Always Always nyse True, event_callback = ''rebalance''\<rparr>]"
proof -
  define d where "d = snd (schedule_function this_module (fresh ''daily'') ''rebalance'' None
            (Some (AfterOpen 30)) True None)"
  define m where "m = snd (schedule_function this_module (fresh ''minute'') ''rebalance'' None
            None True None)"
  have fd: "data_frequency (fresh ''daily'') = ''daily''"
    "data_frequency (fresh ''minute'') = ''minute''"
    "event_manager (fresh ''daily'') = [\<lparr>event_rule = Always, event_callback = ''handle_data''\<rparr>]"
    "event_manager (fresh ''minute'') = [\<lparr>event_rule = Always, event_callback = ''handle_data''\<rparr>]"
    "trading_calendar (fresh ''daily'') = nyse"
    by (simp_all add: fresh_def)
  have rd: "schedule_function this_module (fresh ''daily'') ''rebalance'' None
            (Some (AfterOpen 30)) True None = (Inr (), d)"
    unfolding d_def by (simp add: schedule_function_def Let_def)
  have rm: "schedule_function this_module (fresh ''minute'') ''rebalance'' None None True None
            = (Inr (), m)"
    unfolding m_def by (simp add: schedule_function_def Let_def)
  have cal_d: "trading_calendar d = nyse" "data_frequency d = ''daily''"
    unfolding d_def
    by (simp_all add: schedule_function_def Let_def add_event_def fresh_def
        is_AfterOpen_or_BeforeClose_def)
  note t = schedule_function_time_rule
  from t [of "fresh ''daily''" this_module "''rebalance''" None "AfterOpen 30" True None]
    fd rd obtain cal where
    ed: "event_manager d = [\<lparr>event_rule = Always, event_callback = ''handle_data''\<rparr>,
          \<lparr>event_rule = EventRule Always Always cal True, event_callback = ''rebalance''\<rparr>]"
    and fired: "times_fired d (last (event_manager d)) 7 = 1"
    by auto
  have "event_manager d = [\<lparr>event_rule = Always, event_callback = ''handle_data''\<rparr>,
          \<lparr>event_rule = EventRule Always Always nyse True, event_callback = ''rebalance''\<rparr>]"
    unfolding d_def
    by (simp add: schedule_function_def Let_def add_event_def fresh_def manager_add_event_def
        make_eventrule_def is_AfterOpen_or_BeforeClose_def)
  with ed fired have d_ok:
    "event_manager d = [\<lparr>event_rule = Always, event_callback = ''handle_data''\<rparr>,
          \<lparr>event_rule = EventRule Always Always nyse True, event_callback = ''rebalance''\<rparr>]"
    "times_fired d \<lparr>event_rule = EventRule Always Always nyse True,
        event_callback = ''rebalance''\<rparr> 7 = 1"
    by simp_all
  from t [of "fresh ''minute''" this_module "''rebalance''" None _ True None] fd rm
  obtain cal' where
    "event_manager m = [\<lparr>event_rule = Always, event_callback = ''handle_data''\<rparr>,
          \<lparr>event_rule = EventRule Always Always cal' True, event_callback = ''rebalance''\<rparr>]"
    by auto
  moreover have "event_manager m
       = [\<lparr>event_rule = Always, event_callback = ''handle_data''\<rparr>,
          \<lparr>event_rule = EventRule Always Always nyse True, event_callback = ''rebalance''\<rparr>]"
    unfolding m_def
    by (simp add: schedule_function_def Let_def add_event_def fresh_def manager_add_event_def
        make_eventrule_def is_AfterOpen_or_BeforeClose_def)
  ultimately show ?thesis
    using fd rd rm d_ok unfolding d_def [symmetric] m_def [symmetric] by simp
qed

section \<open>Resolution of the backend at construction\<close>

text \<open>
  C9. The claim: a backend name found only in the global namespace yields a constructed
  algorithm. The code at the name \<open>mybroker\<close>, importable only from the global
  namespace: in the module as written the fallback reads the name \<open>options\<close> and raises
  \<open>NameError\<close>; with \<open>options\<close> bound the fallback binds \<open>backendmod\<close> to a backend
  instance, whose attribute \<open>Backend\<close> the next statement reads, and construction fails
  with \<open>AttributeError\<close>. A name found in neither namespace fails with the error that
  names it, and the first-party default is constructed.
\<close>

theorem init_global_backend_evaluated:
  "import_module this_module ''pylivetrader.backend.mybroker'' = None
   \<and> import_module this_module ''mybroker'' = Some (Module (Some paper_backend))
   \<and> init this_module (default_kwargs\<lparr>kw_backend := Some ''mybroker''\<rparr>)
       = Inl (NameError ''options'')
   \<and> init (this_module\<lparr>name_options := Some []\<rparr>) (default_kwargs\<lparr>kw_backend := Some ''mybroker''\<rparr>)
       = Inl (AttributeError ''Backend'')
   \<and> init this_module (default_kwargs\<lparr>kw_backend := Some ''nowhere''\<rparr>)
       = Inl (RuntimeError ''Could not find backend package `nowhere`.'')
   \<and> init this_module default_kwargs = Inr (fresh ''minute'')"
  by (simp add: init_def default_kwargs_def resolve_backendmod_def call_Backend_def
      this_module_def algorithm_py_def installed_modules_def fresh_def manager_add_event_def
      calendar_service_def not_found_msg_def)

end
